theory Spec2Isabelle
  imports Main "HOL-Library.Monad_Syntax"
begin

section \<open>The store: nodes, sentinel and tree object\<close>

text \<open>
  \<^verbatim>\<open>redBlackTree.py\<close> builds the tree out of mutable \<^verbatim>\<open>Node\<close> objects that refer to
  each other and to one shared sentinel \<^verbatim>\<open>self.nil\<close>.  The model keeps every object
  that was ever created in a list; a reference is the position of the object in that
  list.  A field write \<^verbatim>\<open>a.f = v\<close> replaces the object at position \<^verbatim>\<open>a\<close>; every read
  goes through the current store, so writes through aliases (in particular writes to
  the sentinel) are seen by all later reads exactly as in the program.

  \<^verbatim>\<open>color\<close> is the integer \<^verbatim>\<open>0\<close> (black) or \<^verbatim>\<open>1\<close> (red) in the program; only these two
  literals and copies of other nodes' colours are ever assigned.
\<close>

datatype color = BLACK | RED

type_synonym ref = nat

record node =
  key :: int
  parent :: ref
  left :: ref
  right :: ref
  color :: color

record rbt =
  nodes :: "node list"
  nil :: ref
  root :: ref

abbreviation key_of :: "rbt \<Rightarrow> ref \<Rightarrow> int" where
  "key_of s p \<equiv> key (nodes s ! p)"

abbreviation parent_of :: "rbt \<Rightarrow> ref \<Rightarrow> ref" where
  "parent_of s p \<equiv> parent (nodes s ! p)"

abbreviation left_of :: "rbt \<Rightarrow> ref \<Rightarrow> ref" where
  "left_of s p \<equiv> left (nodes s ! p)"

abbreviation right_of :: "rbt \<Rightarrow> ref \<Rightarrow> ref" where
  "right_of s p \<equiv> right (nodes s ! p)"

abbreviation color_of :: "rbt \<Rightarrow> ref \<Rightarrow> color" where
  "color_of s p \<equiv> color (nodes s ! p)"

definition set_parent :: "rbt \<Rightarrow> ref \<Rightarrow> ref \<Rightarrow> rbt" where
  "set_parent s p v = s\<lparr>nodes := (nodes s)[p := (nodes s ! p)\<lparr>parent := v\<rparr>]\<rparr>"

definition set_left :: "rbt \<Rightarrow> ref \<Rightarrow> ref \<Rightarrow> rbt" where
  "set_left s p v = s\<lparr>nodes := (nodes s)[p := (nodes s ! p)\<lparr>left := v\<rparr>]\<rparr>"

definition set_right :: "rbt \<Rightarrow> ref \<Rightarrow> ref \<Rightarrow> rbt" where
  "set_right s p v = s\<lparr>nodes := (nodes s)[p := (nodes s ! p)\<lparr>right := v\<rparr>]\<rparr>"

definition set_color :: "rbt \<Rightarrow> ref \<Rightarrow> color \<Rightarrow> rbt" where
  "set_color s p c = s\<lparr>nodes := (nodes s)[p := (nodes s ! p)\<lparr>color := c\<rparr>]\<rparr>"

text \<open>
  \<^verbatim>\<open>RedBlackTree.__init__\<close>: the sentinel is \<^verbatim>\<open>Node(0)\<close>, black, with all three links
  pointing to itself, and it is the root of the empty tree.
\<close>

definition init :: rbt where
  "init = \<lparr>nodes = [\<lparr>key = 0, parent = 0, left = 0, right = 0, color = BLACK\<rparr>],
           nil = 0, root = 0\<rparr>"

definition get_root :: "rbt \<Rightarrow> ref" where
  "get_root s = root s"

section \<open>Queries\<close>

text \<open>
  The loops of the program follow links of the store and need not end on a store that
  contains a cycle; they are partial functions, \<open>None\<close> meaning that the loop runs
  forever.
\<close>

partial_function (option) minimum :: "rbt \<Rightarrow> ref \<Rightarrow> ref option" where
  "minimum s n = (if left_of s n \<noteq> nil s then minimum s (left_of s n) else Some n)"

partial_function (option) maximum :: "rbt \<Rightarrow> ref \<Rightarrow> ref option" where
  "maximum s n = (if right_of s n \<noteq> nil s then maximum s (right_of s n) else Some n)"

partial_function (option) successor_up :: "rbt \<Rightarrow> ref \<Rightarrow> ref \<Rightarrow> ref option" where
  "successor_up s x y =
     (if y \<noteq> nil s \<and> x = right_of s y then successor_up s y (parent_of s y) else Some y)"

definition successor :: "rbt \<Rightarrow> ref \<Rightarrow> ref option" where
  "successor s x =
     (if right_of s x \<noteq> nil s then minimum s (right_of s x)
      else successor_up s x (parent_of s x))"

partial_function (option) predecessor_up :: "rbt \<Rightarrow> ref \<Rightarrow> ref \<Rightarrow> ref option" where
  "predecessor_up s x y =
     (if y \<noteq> nil s \<and> x = left_of s y then predecessor_up s y (parent_of s y) else Some y)"

definition predecessor :: "rbt \<Rightarrow> ref \<Rightarrow> ref option" where
  "predecessor s x =
     (if left_of s x \<noteq> nil s then maximum s (left_of s x)
      else predecessor_up s x (parent_of s x))"

partial_function (option) find_helper :: "rbt \<Rightarrow> int \<Rightarrow> ref \<Rightarrow> ref option" where
  "find_helper s k n =
     (if n = nil s \<or> key_of s n = k then Some n
      else if k < key_of s n then find_helper s k (left_of s n)
      else find_helper s k (right_of s n))"

definition find :: "rbt \<Rightarrow> int \<Rightarrow> ref option" where
  "find s k = (if root s = nil s then Some (nil s) else find_helper s k (root s))"

partial_function (option) height :: "rbt \<Rightarrow> ref \<Rightarrow> nat option" where
  "height s n =
     (if n = nil s then Some 0
      else do {
        l_height \<leftarrow> height s (left_of s n);
        r_height \<leftarrow> height s (right_of s n);
        Some (max l_height r_height + 1)
      })"

declare minimum.simps [code] maximum.simps [code] successor_up.simps [code]
  predecessor_up.simps [code] find_helper.simps [code] height.simps [code]

section \<open>Rotations\<close>

definition left_rotate :: "rbt \<Rightarrow> ref \<Rightarrow> rbt" where
  "left_rotate s x =
     (let y = right_of s x;
          s1 = set_right s x (left_of s y);
          s2 = (if left_of s1 y \<noteq> nil s1 then set_parent s1 (left_of s1 y) x else s1);
          s3 = set_parent s2 y (parent_of s2 x);
          s4 = (if parent_of s3 x = nil s3 then s3\<lparr>root := y\<rparr>
                else if x = left_of s3 (parent_of s3 x) then set_left s3 (parent_of s3 x) y
                else set_right s3 (parent_of s3 x) y);
          s5 = set_left s4 y x
      in set_parent s5 x y)"

definition right_rotate :: "rbt \<Rightarrow> ref \<Rightarrow> rbt" where
  "right_rotate s y =
     (let x = left_of s y;
          s1 = set_left s y (right_of s x);
          s2 = (if right_of s1 x \<noteq> nil s1 then set_parent s1 (right_of s1 x) y else s1);
          s3 = set_parent s2 x (parent_of s2 y);
          s4 = (if parent_of s3 y = nil s3 then s3\<lparr>root := x\<rparr>
                else if y = left_of s3 (parent_of s3 y) then set_left s3 (parent_of s3 y) x
                else set_right s3 (parent_of s3 y) x);
          s5 = set_right s4 x y
      in set_parent s5 y x)"

section \<open>Insertion\<close>

text \<open>
  What the two early returns print: \<^verbatim>\<open>"key {} already exists in the tree"\<close> in
  \<^verbatim>\<open>insert\<close> and \<^verbatim>\<open>"Key is not in the tree"\<close> in \<^verbatim>\<open>delete_node\<close>.  Both methods
  return \<^verbatim>\<open>None\<close> on every path, so the printed line is the only report.
\<close>

datatype message = Key_already_exists int | Key_not_in_tree

text \<open>The descent of \<^verbatim>\<open>insert\<close>: \<open>Inl\<close> is the early return, \<open>Inr y\<close> the last node visited.\<close>

partial_function (option) insert_descend ::
  "rbt \<Rightarrow> int \<Rightarrow> ref \<Rightarrow> ref \<Rightarrow> (message + ref) option" where
  "insert_descend s k y x =
     (if x \<noteq> nil s then
        (if k < key_of s x then insert_descend s k x (left_of s x)
         else if k > key_of s x then insert_descend s k x (right_of s x)
         else Some (Inl (Key_already_exists k)))
      else Some (Inr y))"

text \<open>One pass through the body of the loop of \<^verbatim>\<open>insert_fixup\<close>; the result is the new
  store and the new \<^verbatim>\<open>z\<close>.\<close>

definition insert_fixup_body :: "rbt \<Rightarrow> ref \<Rightarrow> rbt \<times> ref" where
  "insert_fixup_body s z =
     (if parent_of s z = left_of s (parent_of s (parent_of s z)) then
        (let y = right_of s (parent_of s (parent_of s z)) in
         if color_of s y = RED then
           (let s1 = set_color s (parent_of s z) BLACK;
                s2 = set_color s1 y BLACK;
                s3 = set_color s2 (parent_of s2 (parent_of s2 z)) RED
            in (s3, parent_of s3 (parent_of s3 z)))
         else
           (let (s1, z1) = (if z = right_of s (parent_of s z)
                            then (left_rotate s (parent_of s z), parent_of s z)
                            else (s, z));
                s2 = set_color s1 (parent_of s1 z1) BLACK;
                s3 = set_color s2 (parent_of s2 (parent_of s2 z1)) RED
            in (right_rotate s3 (parent_of s3 (parent_of s3 z1)), z1)))
      else
        (let y = left_of s (parent_of s (parent_of s z)) in
         if color_of s y = RED then
           (let s1 = set_color s y BLACK;
                s2 = set_color s1 (parent_of s1 z) BLACK;
                s3 = set_color s2 (parent_of s2 (parent_of s2 z)) RED
            in (s3, parent_of s3 (parent_of s3 z)))
         else
           (let (s1, z1) = (if z = left_of s (parent_of s z)
                            then (right_rotate s (parent_of s z), parent_of s z)
                            else (s, z));
                s2 = set_color s1 (parent_of s1 z1) BLACK;
                s3 = set_color s2 (parent_of s2 (parent_of s2 z1)) RED
            in (left_rotate s3 (parent_of s3 (parent_of s3 z1)), z1))))"

partial_function (option) insert_fixup :: "rbt \<Rightarrow> ref \<Rightarrow> rbt option" where
  "insert_fixup s z =
     (if color_of s (parent_of s z) = RED then
        (case insert_fixup_body s z of (s', z') \<Rightarrow> insert_fixup s' z')
      else Some (set_color s (root s) BLACK))"

declare insert_descend.simps [code] insert_fixup.simps [code]

text \<open>
  \<^verbatim>\<open>insert\<close>.  The program creates \<^verbatim>\<open>z\<close> before the descent, but nothing refers to it
  until it is linked below its parent, and on the early return it is dropped; the
  model adds it to the store when it is linked: a red node with key \<open>k\<close>, parent \<open>y\<close>
  and the sentinel as both children.
\<close>

definition insert :: "rbt \<Rightarrow> int \<Rightarrow> (message option \<times> rbt) option" where
  "insert s k =
     do {
       d \<leftarrow> insert_descend s k (nil s) (root s);
       case d of
         Inl m \<Rightarrow> Some (Some m, s)
       | Inr y \<Rightarrow>
           (let z = length (nodes s);
                s1 = s\<lparr>nodes := nodes s @
                       [\<lparr>key = k, parent = y, left = nil s, right = nil s, color = RED\<rparr>]\<rparr>
            in if y = nil s1 then Some (None, set_color (s1\<lparr>root := z\<rparr>) z BLACK)
               else
                 (let s2 = (if k < key_of s1 y then set_left s1 y z else set_right s1 y z)
                  in map_option (Pair None) (insert_fixup s2 z)))
     }"

section \<open>Deletion\<close>

definition rb_transplant :: "rbt \<Rightarrow> ref \<Rightarrow> ref \<Rightarrow> rbt" where
  "rb_transplant s u v =
     (let s1 = (if parent_of s u = nil s then s\<lparr>root := v\<rparr>
                else if u = left_of s (parent_of s u) then set_left s (parent_of s u) v
                else set_right s (parent_of s u) v)
      in set_parent s1 v (parent_of s1 u))"

text \<open>The guard of the loop of \<^verbatim>\<open>fix_delete\<close>, as the program writes it.\<close>

definition fix_delete_cond :: "rbt \<Rightarrow> ref \<Rightarrow> bool" where
  "fix_delete_cond s x \<longleftrightarrow> x \<noteq> nil s \<and> color_of s x = BLACK"

text \<open>One pass through the body of the loop of \<^verbatim>\<open>fix_delete\<close>: the new store and the
  new \<^verbatim>\<open>x\<close>.\<close>

definition fix_delete_body :: "rbt \<Rightarrow> ref \<Rightarrow> rbt \<times> ref" where
  "fix_delete_body s x =
     (if x = left_of s (parent_of s x) then
        (let w = right_of s (parent_of s x);
             (s1, w1) = (if color_of s w = RED then
                           (let t1 = set_color s w BLACK;
                                t2 = set_color t1 (parent_of t1 x) RED;
                                t3 = left_rotate t2 (parent_of t2 x)
                            in (t3, right_of t3 (parent_of t3 x)))
                         else (s, w))
         in if color_of s1 (left_of s1 w1) = BLACK \<and> color_of s1 (right_of s1 w1) = BLACK then
              (let s2 = set_color s1 w1 RED in (s2, parent_of s2 x))
            else
              (let (s2, w2) = (if color_of s1 (right_of s1 w1) = BLACK then
                                 (let t1 = set_color s1 (left_of s1 w1) BLACK;
                                      t2 = set_color t1 w1 RED;
                                      t3 = right_rotate t2 w1
                                  in (t3, right_of t3 (parent_of t3 x)))
                               else (s1, w1));
                   s3 = set_color s2 w2 (color_of s2 (parent_of s2 x));
                   s4 = set_color s3 (parent_of s3 x) BLACK;
                   s5 = set_color s4 (right_of s4 w2) BLACK;
                   s6 = left_rotate s5 (parent_of s5 x)
               in (s6, root s6)))
      else
        (let w = left_of s (parent_of s x);
             (s1, w1) = (if color_of s w = RED then
                           (let t1 = set_color s w BLACK;
                                t2 = set_color t1 (parent_of t1 x) RED;
                                t3 = right_rotate t2 (parent_of t2 x)
                            in (t3, left_of t3 (parent_of t3 x)))
                         else (s, w))
         in if color_of s1 (left_of s1 w1) = BLACK \<and> color_of s1 (right_of s1 w1) = BLACK then
              (let s2 = set_color s1 w1 RED in (s2, parent_of s2 x))
            else
              (let (s2, w2) = (if color_of s1 (left_of s1 w1) = BLACK then
                                 (let t1 = set_color s1 (right_of s1 w1) BLACK;
                                      t2 = set_color t1 w1 RED;
                                      t3 = left_rotate t2 w1
                                  in (t3, left_of t3 (parent_of t3 x)))
                               else (s1, w1));
                   s3 = set_color s2 w2 (color_of s2 (parent_of s2 x));
                   s4 = set_color s3 (parent_of s3 x) BLACK;
                   s5 = set_color s4 (left_of s4 w2) BLACK;
                   s6 = right_rotate s5 (parent_of s5 x)
               in (s6, root s6))))"

partial_function (option) fix_delete :: "rbt \<Rightarrow> ref \<Rightarrow> rbt option" where
  "fix_delete s x =
     (if fix_delete_cond s x then
        (case fix_delete_body s x of (s', x') \<Rightarrow> fix_delete s' x')
      else Some (set_color s x BLACK))"

declare fix_delete.simps [code]

text \<open>
  The first part of \<^verbatim>\<open>delete_node_helper\<close>, up to the test of \<^verbatim>\<open>y_original_color\<close>:
  the store after the node has been spliced out, the node \<^verbatim>\<open>x\<close> that moved up, and
  \<^verbatim>\<open>y_original_color\<close>.
\<close>

definition delete_splice :: "rbt \<Rightarrow> ref \<Rightarrow> (rbt \<times> ref \<times> color) option" where
  "delete_splice s z =
     (if left_of s z = nil s then
        Some (rb_transplant s z (right_of s z), right_of s z, color_of s z)
      else if right_of s z = nil s then
        Some (rb_transplant s z (left_of s z), left_of s z, color_of s z)
      else
        do {
          y \<leftarrow> minimum s (right_of s z);
          let y_original_color = color_of s y;
          let x = right_of s y;
          let s1 = (if parent_of s y = z then set_parent s x y
                    else
                      (let t1 = rb_transplant s y (right_of s y);
                           t2 = set_right t1 y (right_of t1 z)
                       in set_parent t2 (right_of t2 y) y));
          let s2 = rb_transplant s1 z y;
          let s3 = set_left s2 y (left_of s2 z);
          let s4 = set_parent s3 (left_of s3 y) y;
          let s5 = set_color s4 y (color_of s4 z);
          Some (s5, x, y_original_color)
        })"

definition delete_node_helper :: "rbt \<Rightarrow> ref \<Rightarrow> rbt option" where
  "delete_node_helper s z =
     do {
       (s', x, y_original_color) \<leftarrow> delete_splice s z;
       if y_original_color = BLACK then fix_delete s' x else Some s'
     }"

definition delete_node :: "rbt \<Rightarrow> int \<Rightarrow> (message option \<times> rbt) option" where
  "delete_node s k =
     do {
       z \<leftarrow> find s k;
       if z = nil s then Some (Some Key_not_in_tree, s)
       else map_option (Pair None) (delete_node_helper s z)
     }"

section \<open>Sequences of operations\<close>

datatype op = Insert int | Delete int

fun apply_op :: "rbt \<Rightarrow> op \<Rightarrow> (message option \<times> rbt) option" where
  "apply_op s (Insert k) = insert s k"
| "apply_op s (Delete k) = delete_node s k"

fun run :: "rbt \<Rightarrow> op list \<Rightarrow> rbt option" where
  "run s [] = Some s"
| "run s (a # as) = (case apply_op s a of None \<Rightarrow> None | Some (m, s') \<Rightarrow> run s' as)"

section \<open>The tree that a store represents\<close>

text \<open>
  The claims speak about the tree as a mathematical object: keys, colours and shape.
  \<open>is_tree s p t\<close> says that following the \<^verbatim>\<open>left\<close> and \<^verbatim>\<open>right\<close> links of the store
  \<open>s\<close> from the reference \<open>p\<close> spells out exactly the tree \<open>t\<close>, where \<open>Leaf\<close> stands for
  the sentinel.
\<close>

datatype tree = Leaf | Node tree int color tree

fun is_tree :: "rbt \<Rightarrow> ref \<Rightarrow> tree \<Rightarrow> bool" where
  "is_tree s p Leaf = (p = nil s)"
| "is_tree s p (Node l k c r) =
     (p \<noteq> nil s \<and> key_of s p = k \<and> color_of s p = c \<and>
      is_tree s (left_of s p) l \<and> is_tree s (right_of s p) r)"





text \<open>The keys of a tree from left to right.\<close>

fun inorder :: "tree \<Rightarrow> int list" where
  "inorder Leaf = []"
| "inorder (Node l k c r) = inorder l @ k # inorder r"

text \<open>
  The number of black nodes on every path from the root of a tree down to a sentinel
  leaf (the leaf itself is not counted).  Property 4 of the specification asks these
  numbers to agree.
\<close>

fun black_counts :: "tree \<Rightarrow> nat list" where
  "black_counts Leaf = [0]"
| "black_counts (Node l k c r) =
     map (\<lambda>n. if c = BLACK then Suc n else n) (black_counts l @ black_counts r)"

text \<open>
  The keys that a sequence of calls leaves in the set: those inserted and not deleted
  afterwards, in increasing order.
\<close>

fun record_op :: "op \<Rightarrow> int list \<Rightarrow> int list" where
  "record_op (Insert k) ks = (if k \<in> set ks then ks else insort k ks)"
| "record_op (Delete k) ks = removeAll k ks"

definition present_keys :: "op list \<Rightarrow> int list" where
  "present_keys ops = fold record_op ops []"

section \<open>The reference run of the program\<close>

text \<open>
  The stores after each of the calls at the end of \<^verbatim>\<open>redBlackTree.py\<close>: the inserts of
  8, 18, 5, 15, 17, 25, 40, 80 and the deletion of 25.  Position 0 is the sentinel.
\<close>

definition golden_1 :: rbt where
  "golden_1 =
     \<lparr>nodes =
       [\<lparr>key = 0, parent = 0, left = 0, right = 0, color = BLACK\<rparr>,
        \<lparr>key = 8, parent = 0, left = 0, right = 0, color = BLACK\<rparr>],
      nil = 0, root = 1\<rparr>"

definition golden_2 :: rbt where
  "golden_2 =
     \<lparr>nodes =
       [\<lparr>key = 0, parent = 0, left = 0, right = 0, color = BLACK\<rparr>,
        \<lparr>key = 8, parent = 0, left = 0, right = 2, color = BLACK\<rparr>,
        \<lparr>key = 18, parent = 1, left = 0, right = 0, color = RED\<rparr>],
      nil = 0, root = 1\<rparr>"

definition golden_3 :: rbt where
  "golden_3 =
     \<lparr>nodes =
       [\<lparr>key = 0, parent = 0, left = 0, right = 0, color = BLACK\<rparr>,
        \<lparr>key = 8, parent = 0, left = 3, right = 2, color = BLACK\<rparr>,
        \<lparr>key = 18, parent = 1, left = 0, right = 0, color = RED\<rparr>,
        \<lparr>key = 5, parent = 1, left = 0, right = 0, color = RED\<rparr>],
      nil = 0, root = 1\<rparr>"

definition golden_4 :: rbt where
  "golden_4 =
     \<lparr>nodes =
       [\<lparr>key = 0, parent = 0, left = 0, right = 0, color = BLACK\<rparr>,
        \<lparr>key = 8, parent = 0, left = 3, right = 2, color = BLACK\<rparr>,
        \<lparr>key = 18, parent = 1, left = 4, right = 0, color = BLACK\<rparr>,
        \<lparr>key = 5, parent = 1, left = 0, right = 0, color = BLACK\<rparr>,
        \<lparr>key = 15, parent = 2, left = 0, right = 0, color = RED\<rparr>],
      nil = 0, root = 1\<rparr>"

definition golden_5 :: rbt where
  "golden_5 =
     \<lparr>nodes =
       [\<lparr>key = 0, parent = 0, left = 0, right = 0, color = BLACK\<rparr>,
        \<lparr>key = 8, parent = 0, left = 3, right = 5, color = BLACK\<rparr>,
        \<lparr>key = 18, parent = 5, left = 0, right = 0, color = RED\<rparr>,
        \<lparr>key = 5, parent = 1, left = 0, right = 0, color = BLACK\<rparr>,
        \<lparr>key = 15, parent = 5, left = 0, right = 0, color = RED\<rparr>,
        \<lparr>key = 17, parent = 1, left = 4, right = 2, color = BLACK\<rparr>],
      nil = 0, root = 1\<rparr>"

definition golden_6 :: rbt where
  "golden_6 =
     \<lparr>nodes =
       [\<lparr>key = 0, parent = 0, left = 0, right = 0, color = BLACK\<rparr>,
        \<lparr>key = 8, parent = 0, left = 3, right = 5, color = BLACK\<rparr>,
        \<lparr>key = 18, parent = 5, left = 0, right = 6, color = BLACK\<rparr>,
        \<lparr>key = 5, parent = 1, left = 0, right = 0, color = BLACK\<rparr>,
        \<lparr>key = 15, parent = 5, left = 0, right = 0, color = BLACK\<rparr>,
        \<lparr>key = 17, parent = 1, left = 4, right = 2, color = RED\<rparr>,
        \<lparr>key = 25, parent = 2, left = 0, right = 0, color = RED\<rparr>],
      nil = 0, root = 1\<rparr>"

definition golden_7 :: rbt where
  "golden_7 =
     \<lparr>nodes =
       [\<lparr>key = 0, parent = 0, left = 0, right = 0, color = BLACK\<rparr>,
        \<lparr>key = 8, parent = 0, left = 3, right = 5, color = BLACK\<rparr>,
        \<lparr>key = 18, parent = 6, left = 0, right = 0, color = RED\<rparr>,
        \<lparr>key = 5, parent = 1, left = 0, right = 0, color = BLACK\<rparr>,
        \<lparr>key = 15, parent = 5, left = 0, right = 0, color = BLACK\<rparr>,
        \<lparr>key = 17, parent = 1, left = 4, right = 6, color = RED\<rparr>,
        \<lparr>key = 25, parent = 5, left = 2, right = 7, color = BLACK\<rparr>,
        \<lparr>key = 40, parent = 6, left = 0, right = 0, color = RED\<rparr>],
      nil = 0, root = 1\<rparr>"

definition golden_8 :: rbt where
  "golden_8 =
     \<lparr>nodes =
       [\<lparr>key = 0, parent = 0, left = 0, right = 0, color = BLACK\<rparr>,
        \<lparr>key = 8, parent = 5, left = 3, right = 4, color = RED\<rparr>,
        \<lparr>key = 18, parent = 6, left = 0, right = 0, color = BLACK\<rparr>,
        \<lparr>key = 5, parent = 1, left = 0, right = 0, color = BLACK\<rparr>,
        \<lparr>key = 15, parent = 1, left = 0, right = 0, color = BLACK\<rparr>,
        \<lparr>key = 17, parent = 0, left = 1, right = 6, color = BLACK\<rparr>,
        \<lparr>key = 25, parent = 5, left = 2, right = 7, color = RED\<rparr>,
        \<lparr>key = 40, parent = 6, left = 0, right = 8, color = BLACK\<rparr>,
        \<lparr>key = 80, parent = 7, left = 0, right = 0, color = RED\<rparr>],
      nil = 0, root = 5\<rparr>"

definition golden_9 :: rbt where
  "golden_9 =
     \<lparr>nodes =
       [\<lparr>key = 0, parent = 0, left = 0, right = 0, color = BLACK\<rparr>,
        \<lparr>key = 8, parent = 5, left = 3, right = 4, color = RED\<rparr>,
        \<lparr>key = 18, parent = 7, left = 0, right = 0, color = BLACK\<rparr>,
        \<lparr>key = 5, parent = 1, left = 0, right = 0, color = BLACK\<rparr>,
        \<lparr>key = 15, parent = 1, left = 0, right = 0, color = BLACK\<rparr>,
        \<lparr>key = 17, parent = 0, left = 1, right = 7, color = BLACK\<rparr>,
        \<lparr>key = 25, parent = 5, left = 2, right = 7, color = RED\<rparr>,
        \<lparr>key = 40, parent = 5, left = 2, right = 8, color = RED\<rparr>,
        \<lparr>key = 80, parent = 7, left = 0, right = 0, color = BLACK\<rparr>],
      nil = 0, root = 5\<rparr>"

definition golden_left :: tree where
  "golden_left = Node (Node Leaf 5 BLACK Leaf) 8 RED (Node Leaf 15 BLACK Leaf)"

definition golden_tree :: tree where
  "golden_tree =
     Node golden_left 17 BLACK
          (Node (Node Leaf 18 BLACK Leaf) 25 RED
                (Node Leaf 40 BLACK (Node Leaf 80 RED Leaf)))"

definition golden_tree_after_delete :: tree where
  "golden_tree_after_delete =
     Node golden_left 17 BLACK
          (Node (Node Leaf 18 BLACK Leaf) 40 RED (Node Leaf 80 BLACK Leaf))"

section \<open>A run that leaves the tree unbalanced\<close>

text \<open>
  The stores after inserting 1, 2, 3, 4 and deleting 1, and the store in the middle of
  the following deletion of 2, at the point where \<^verbatim>\<open>delete_node_helper\<close> calls
  \<^verbatim>\<open>fix_delete\<close>.
\<close>

definition unbal_1 :: rbt where
  "unbal_1 =
     \<lparr>nodes =
       [\<lparr>key = 0, parent = 0, left = 0, right = 0, color = BLACK\<rparr>,
        \<lparr>key = 1, parent = 0, left = 0, right = 0, color = BLACK\<rparr>],
      nil = 0, root = 1\<rparr>"

definition unbal_2 :: rbt where
  "unbal_2 =
     \<lparr>nodes =
       [\<lparr>key = 0, parent = 0, left = 0, right = 0, color = BLACK\<rparr>,
        \<lparr>key = 1, parent = 0, left = 0, right = 2, color = BLACK\<rparr>,
        \<lparr>key = 2, parent = 1, left = 0, right = 0, color = RED\<rparr>],
      nil = 0, root = 1\<rparr>"

definition unbal_3 :: rbt where
  "unbal_3 =
     \<lparr>nodes =
       [\<lparr>key = 0, parent = 0, left = 0, right = 0, color = BLACK\<rparr>,
        \<lparr>key = 1, parent = 2, left = 0, right = 0, color = RED\<rparr>,
        \<lparr>key = 2, parent = 0, left = 1, right = 3, color = BLACK\<rparr>,
        \<lparr>key = 3, parent = 2, left = 0, right = 0, color = RED\<rparr>],
      nil = 0, root = 2\<rparr>"

definition unbal_4 :: rbt where
  "unbal_4 =
     \<lparr>nodes =
       [\<lparr>key = 0, parent = 0, left = 0, right = 0, color = BLACK\<rparr>,
        \<lparr>key = 1, parent = 2, left = 0, right = 0, color = BLACK\<rparr>,
        \<lparr>key = 2, parent = 0, left = 1, right = 3, color = BLACK\<rparr>,
        \<lparr>key = 3, parent = 2, left = 0, right = 4, color = BLACK\<rparr>,
        \<lparr>key = 4, parent = 3, left = 0, right = 0, color = RED\<rparr>],
      nil = 0, root = 2\<rparr>"

definition unbal_5 :: rbt where
  "unbal_5 =
     \<lparr>nodes =
       [\<lparr>key = 0, parent = 2, left = 0, right = 0, color = BLACK\<rparr>,
        \<lparr>key = 1, parent = 2, left = 0, right = 0, color = BLACK\<rparr>,
        \<lparr>key = 2, parent = 0, left = 0, right = 3, color = BLACK\<rparr>,
        \<lparr>key = 3, parent = 2, left = 0, right = 4, color = BLACK\<rparr>,
        \<lparr>key = 4, parent = 3, left = 0, right = 0, color = RED\<rparr>],
      nil = 0, root = 2\<rparr>"

definition unbal_spliced :: rbt where
  "unbal_spliced =
     \<lparr>nodes =
       [\<lparr>key = 0, parent = 2, left = 0, right = 0, color = BLACK\<rparr>,
        \<lparr>key = 1, parent = 2, left = 0, right = 0, color = BLACK\<rparr>,
        \<lparr>key = 2, parent = 0, left = 0, right = 3, color = BLACK\<rparr>,
        \<lparr>key = 3, parent = 0, left = 0, right = 4, color = BLACK\<rparr>,
        \<lparr>key = 4, parent = 3, left = 0, right = 0, color = RED\<rparr>],
      nil = 0, root = 3\<rparr>"

definition unbal_tree :: tree where
  "unbal_tree = Node Leaf 2 BLACK (Node Leaf 3 BLACK (Node Leaf 4 RED Leaf))"

section \<open>A run that loses keys\<close>

definition lost_ops :: "op list" where
  "lost_ops =
     [Insert 6, Insert 5, Insert 1, Insert 7, Delete 1, Insert 2, Insert 1, Insert 4,
      Delete 1, Insert 1, Delete 4, Delete 2, Delete 5]"

text \<open>The stores after each call of \<open>lost_ops\<close>.\<close>

definition lost_1 :: rbt where
  "lost_1 =
     \<lparr>nodes =
       [\<lparr>key = 0, parent = 0, left = 0, right = 0, color = BLACK\<rparr>,
        \<lparr>key = 6, parent = 0, left = 0, right = 0, color = BLACK\<rparr>],
      nil = 0, root = 1\<rparr>"

definition lost_2 :: rbt where
  "lost_2 =
     \<lparr>nodes =
       [\<lparr>key = 0, parent = 0, left = 0, right = 0, color = BLACK\<rparr>,
        \<lparr>key = 6, parent = 0, left = 2, right = 0, color = BLACK\<rparr>,
        \<lparr>key = 5, parent = 1, left = 0, right = 0, color = RED\<rparr>],
      nil = 0, root = 1\<rparr>"

definition lost_3 :: rbt where
  "lost_3 =
     \<lparr>nodes =
       [\<lparr>key = 0, parent = 0, left = 0, right = 0, color = BLACK\<rparr>,
        \<lparr>key = 6, parent = 2, left = 0, right = 0, color = RED\<rparr>,
        \<lparr>key = 5, parent = 0, left = 3, right = 1, color = BLACK\<rparr>,
        \<lparr>key = 1, parent = 2, left = 0, right = 0, color = RED\<rparr>],
      nil = 0, root = 2\<rparr>"

definition lost_4 :: rbt where
  "lost_4 =
     \<lparr>nodes =
       [\<lparr>key = 0, parent = 0, left = 0, right = 0, color = BLACK\<rparr>,
        \<lparr>key = 6, parent = 2, left = 0, right = 4, color = BLACK\<rparr>,
        \<lparr>key = 5, parent = 0, left = 3, right = 1, color = BLACK\<rparr>,
        \<lparr>key = 1, parent = 2, left = 0, right = 0, color = BLACK\<rparr>,
        \<lparr>key = 7, parent = 1, left = 0, right = 0, color = RED\<rparr>],
      nil = 0, root = 2\<rparr>"

definition lost_5 :: rbt where
  "lost_5 =
     \<lparr>nodes =
       [\<lparr>key = 0, parent = 2, left = 0, right = 0, color = BLACK\<rparr>,
        \<lparr>key = 6, parent = 2, left = 0, right = 4, color = BLACK\<rparr>,
        \<lparr>key = 5, parent = 0, left = 0, right = 1, color = BLACK\<rparr>,
        \<lparr>key = 1, parent = 2, left = 0, right = 0, color = BLACK\<rparr>,
        \<lparr>key = 7, parent = 1, left = 0, right = 0, color = RED\<rparr>],
      nil = 0, root = 2\<rparr>"

definition lost_6 :: rbt where
  "lost_6 =
     \<lparr>nodes =
       [\<lparr>key = 0, parent = 2, left = 0, right = 0, color = BLACK\<rparr>,
        \<lparr>key = 6, parent = 2, left = 0, right = 4, color = BLACK\<rparr>,
        \<lparr>key = 5, parent = 0, left = 5, right = 1, color = BLACK\<rparr>,
        \<lparr>key = 1, parent = 2, left = 0, right = 0, color = BLACK\<rparr>,
        \<lparr>key = 7, parent = 1, left = 0, right = 0, color = RED\<rparr>,
        \<lparr>key = 2, parent = 2, left = 0, right = 0, color = RED\<rparr>],
      nil = 0, root = 2\<rparr>"

definition lost_7 :: rbt where
  "lost_7 =
     \<lparr>nodes =
       [\<lparr>key = 0, parent = 2, left = 0, right = 0, color = BLACK\<rparr>,
        \<lparr>key = 6, parent = 2, left = 0, right = 4, color = BLACK\<rparr>,
        \<lparr>key = 5, parent = 5, left = 0, right = 1, color = RED\<rparr>,
        \<lparr>key = 1, parent = 2, left = 0, right = 0, color = BLACK\<rparr>,
        \<lparr>key = 7, parent = 1, left = 0, right = 0, color = RED\<rparr>,
        \<lparr>key = 2, parent = 0, left = 6, right = 2, color = BLACK\<rparr>,
        \<lparr>key = 1, parent = 5, left = 0, right = 0, color = RED\<rparr>],
      nil = 0, root = 5\<rparr>"

definition lost_8 :: rbt where
  "lost_8 =
     \<lparr>nodes =
       [\<lparr>key = 0, parent = 2, left = 0, right = 0, color = BLACK\<rparr>,
        \<lparr>key = 6, parent = 2, left = 0, right = 4, color = BLACK\<rparr>,
        \<lparr>key = 5, parent = 5, left = 7, right = 1, color = BLACK\<rparr>,
        \<lparr>key = 1, parent = 2, left = 0, right = 0, color = BLACK\<rparr>,
        \<lparr>key = 7, parent = 1, left = 0, right = 0, color = RED\<rparr>,
        \<lparr>key = 2, parent = 0, left = 6, right = 2, color = BLACK\<rparr>,
        \<lparr>key = 1, parent = 5, left = 0, right = 0, color = BLACK\<rparr>,
        \<lparr>key = 4, parent = 2, left = 0, right = 0, color = RED\<rparr>],
      nil = 0, root = 5\<rparr>"

definition lost_9 :: rbt where
  "lost_9 =
     \<lparr>nodes =
       [\<lparr>key = 0, parent = 5, left = 0, right = 0, color = BLACK\<rparr>,
        \<lparr>key = 6, parent = 2, left = 0, right = 4, color = BLACK\<rparr>,
        \<lparr>key = 5, parent = 5, left = 7, right = 1, color = BLACK\<rparr>,
        \<lparr>key = 1, parent = 2, left = 0, right = 0, color = BLACK\<rparr>,
        \<lparr>key = 7, parent = 1, left = 0, right = 0, color = RED\<rparr>,
        \<lparr>key = 2, parent = 0, left = 0, right = 2, color = BLACK\<rparr>,
        \<lparr>key = 1, parent = 5, left = 0, right = 0, color = BLACK\<rparr>,
        \<lparr>key = 4, parent = 2, left = 0, right = 0, color = RED\<rparr>],
      nil = 0, root = 5\<rparr>"

definition lost_10 :: rbt where
  "lost_10 =
     \<lparr>nodes =
       [\<lparr>key = 0, parent = 5, left = 0, right = 0, color = BLACK\<rparr>,
        \<lparr>key = 6, parent = 2, left = 0, right = 4, color = BLACK\<rparr>,
        \<lparr>key = 5, parent = 5, left = 7, right = 1, color = BLACK\<rparr>,
        \<lparr>key = 1, parent = 2, left = 0, right = 0, color = BLACK\<rparr>,
        \<lparr>key = 7, parent = 1, left = 0, right = 0, color = RED\<rparr>,
        \<lparr>key = 2, parent = 0, left = 8, right = 2, color = BLACK\<rparr>,
        \<lparr>key = 1, parent = 5, left = 0, right = 0, color = BLACK\<rparr>,
        \<lparr>key = 4, parent = 2, left = 0, right = 0, color = RED\<rparr>,
        \<lparr>key = 1, parent = 5, left = 0, right = 0, color = RED\<rparr>],
      nil = 0, root = 5\<rparr>"

definition lost_11 :: rbt where
  "lost_11 =
     \<lparr>nodes =
       [\<lparr>key = 0, parent = 2, left = 0, right = 0, color = BLACK\<rparr>,
        \<lparr>key = 6, parent = 2, left = 0, right = 4, color = BLACK\<rparr>,
        \<lparr>key = 5, parent = 5, left = 0, right = 1, color = BLACK\<rparr>,
        \<lparr>key = 1, parent = 2, left = 0, right = 0, color = BLACK\<rparr>,
        \<lparr>key = 7, parent = 1, left = 0, right = 0, color = RED\<rparr>,
        \<lparr>key = 2, parent = 0, left = 8, right = 2, color = BLACK\<rparr>,
        \<lparr>key = 1, parent = 5, left = 0, right = 0, color = BLACK\<rparr>,
        \<lparr>key = 4, parent = 2, left = 0, right = 0, color = RED\<rparr>,
        \<lparr>key = 1, parent = 5, left = 0, right = 0, color = RED\<rparr>],
      nil = 0, root = 5\<rparr>"

definition lost_12 :: rbt where
  "lost_12 =
     \<lparr>nodes =
       [\<lparr>key = 0, parent = 2, left = 0, right = 0, color = RED\<rparr>,
        \<lparr>key = 6, parent = 2, left = 0, right = 4, color = BLACK\<rparr>,
        \<lparr>key = 5, parent = 8, left = 0, right = 1, color = BLACK\<rparr>,
        \<lparr>key = 1, parent = 2, left = 0, right = 0, color = BLACK\<rparr>,
        \<lparr>key = 7, parent = 1, left = 0, right = 0, color = RED\<rparr>,
        \<lparr>key = 2, parent = 0, left = 8, right = 2, color = BLACK\<rparr>,
        \<lparr>key = 1, parent = 5, left = 0, right = 0, color = BLACK\<rparr>,
        \<lparr>key = 4, parent = 2, left = 0, right = 0, color = RED\<rparr>,
        \<lparr>key = 1, parent = 0, left = 0, right = 2, color = BLACK\<rparr>],
      nil = 0, root = 8\<rparr>"

definition lost_13 :: rbt where
  "lost_13 =
     \<lparr>nodes =
       [\<lparr>key = 0, parent = 0, left = 0, right = 8, color = BLACK\<rparr>,
        \<lparr>key = 6, parent = 8, left = 0, right = 4, color = BLACK\<rparr>,
        \<lparr>key = 5, parent = 8, left = 0, right = 1, color = BLACK\<rparr>,
        \<lparr>key = 1, parent = 2, left = 0, right = 0, color = BLACK\<rparr>,
        \<lparr>key = 7, parent = 1, left = 0, right = 0, color = RED\<rparr>,
        \<lparr>key = 2, parent = 0, left = 8, right = 2, color = BLACK\<rparr>,
        \<lparr>key = 1, parent = 5, left = 0, right = 0, color = BLACK\<rparr>,
        \<lparr>key = 4, parent = 2, left = 0, right = 0, color = RED\<rparr>,
        \<lparr>key = 1, parent = 0, left = 0, right = 1, color = BLACK\<rparr>],
      nil = 0, root = 0\<rparr>"

section \<open>A run that leaves a tree that is not a search tree\<close>


text \<open>
  The stores after each call of \<open>dup_ops\<close>, and \<open>dup_20\<close>, the store after one more call,
  \<^verbatim>\<open>insert(5)\<close>.
\<close>

definition dup_1 :: rbt where
  "dup_1 =
     \<lparr>nodes =
       [\<lparr>key = 0, parent = 0, left = 0, right = 0, color = BLACK\<rparr>,
        \<lparr>key = 2, parent = 0, left = 0, right = 0, color = BLACK\<rparr>],
      nil = 0, root = 1\<rparr>"

definition dup_2 :: rbt where
  "dup_2 =
     \<lparr>nodes =
       [\<lparr>key = 0, parent = 0, left = 0, right = 0, color = BLACK\<rparr>,
        \<lparr>key = 2, parent = 0, left = 0, right = 2, color = BLACK\<rparr>,
        \<lparr>key = 6, parent = 1, left = 0, right = 0, color = RED\<rparr>],
      nil = 0, root = 1\<rparr>"

definition dup_3 :: rbt where
  "dup_3 =
     \<lparr>nodes =
       [\<lparr>key = 0, parent = 0, left = 0, right = 0, color = BLACK\<rparr>,
        \<lparr>key = 2, parent = 3, left = 0, right = 0, color = RED\<rparr>,
        \<lparr>key = 6, parent = 3, left = 0, right = 0, color = RED\<rparr>,
        \<lparr>key = 3, parent = 0, left = 1, right = 2, color = BLACK\<rparr>],
      nil = 0, root = 3\<rparr>"

definition dup_4 :: rbt where
  "dup_4 =
     \<lparr>nodes =
       [\<lparr>key = 0, parent = 0, left = 0, right = 0, color = BLACK\<rparr>,
        \<lparr>key = 2, parent = 3, left = 4, right = 0, color = BLACK\<rparr>,
        \<lparr>key = 6, parent = 3, left = 0, right = 0, color = BLACK\<rparr>,
        \<lparr>key = 3, parent = 0, left = 1, right = 2, color = BLACK\<rparr>,
        \<lparr>key = 1, parent = 1, left = 0, right = 0, color = RED\<rparr>],
      nil = 0, root = 3\<rparr>"

definition dup_5 :: rbt where
  "dup_5 =
     \<lparr>nodes =
       [\<lparr>key = 0, parent = 3, left = 0, right = 0, color = BLACK\<rparr>,
        \<lparr>key = 2, parent = 3, left = 4, right = 0, color = BLACK\<rparr>,
        \<lparr>key = 6, parent = 3, left = 0, right = 0, color = BLACK\<rparr>,
        \<lparr>key = 3, parent = 0, left = 1, right = 0, color = BLACK\<rparr>,
        \<lparr>key = 1, parent = 1, left = 0, right = 0, color = RED\<rparr>],
      nil = 0, root = 3\<rparr>"

definition dup_6 :: rbt where
  "dup_6 =
     \<lparr>nodes =
       [\<lparr>key = 0, parent = 3, left = 0, right = 0, color = BLACK\<rparr>,
        \<lparr>key = 2, parent = 3, left = 4, right = 0, color = BLACK\<rparr>,
        \<lparr>key = 6, parent = 3, left = 0, right = 0, color = BLACK\<rparr>,
        \<lparr>key = 3, parent = 0, left = 1, right = 5, color = BLACK\<rparr>,
        \<lparr>key = 1, parent = 1, left = 0, right = 0, color = RED\<rparr>,
        \<lparr>key = 5, parent = 3, left = 0, right = 0, color = RED\<rparr>],
      nil = 0, root = 3\<rparr>"

definition dup_7 :: rbt where
  "dup_7 =
     \<lparr>nodes =
       [\<lparr>key = 0, parent = 3, left = 0, right = 0, color = BLACK\<rparr>,
        \<lparr>key = 2, parent = 3, left = 4, right = 0, color = BLACK\<rparr>,
        \<lparr>key = 6, parent = 3, left = 0, right = 0, color = BLACK\<rparr>,
        \<lparr>key = 3, parent = 6, left = 1, right = 0, color = RED\<rparr>,
        \<lparr>key = 1, parent = 1, left = 0, right = 0, color = RED\<rparr>,
        \<lparr>key = 5, parent = 6, left = 0, right = 0, color = RED\<rparr>,
        \<lparr>key = 4, parent = 0, left = 3, right = 5, color = BLACK\<rparr>],
      nil = 0, root = 6\<rparr>"

definition dup_8 :: rbt where
  "dup_8 =
     \<lparr>nodes =
       [\<lparr>key = 0, parent = 3, left = 0, right = 0, color = BLACK\<rparr>,
        \<lparr>key = 2, parent = 3, left = 4, right = 0, color = BLACK\<rparr>,
        \<lparr>key = 6, parent = 3, left = 0, right = 0, color = BLACK\<rparr>,
        \<lparr>key = 3, parent = 6, left = 1, right = 0, color = BLACK\<rparr>,
        \<lparr>key = 1, parent = 1, left = 0, right = 0, color = RED\<rparr>,
        \<lparr>key = 5, parent = 6, left = 0, right = 7, color = BLACK\<rparr>,
        \<lparr>key = 4, parent = 0, left = 3, right = 5, color = BLACK\<rparr>,
        \<lparr>key = 6, parent = 5, left = 0, right = 0, color = RED\<rparr>],
      nil = 0, root = 6\<rparr>"

definition dup_9 :: rbt where
  "dup_9 =
     \<lparr>nodes =
       [\<lparr>key = 0, parent = 5, left = 0, right = 0, color = BLACK\<rparr>,
        \<lparr>key = 2, parent = 3, left = 4, right = 0, color = BLACK\<rparr>,
        \<lparr>key = 6, parent = 3, left = 0, right = 0, color = BLACK\<rparr>,
        \<lparr>key = 3, parent = 6, left = 1, right = 0, color = BLACK\<rparr>,
        \<lparr>key = 1, parent = 1, left = 0, right = 0, color = RED\<rparr>,
        \<lparr>key = 5, parent = 6, left = 0, right = 0, color = BLACK\<rparr>,
        \<lparr>key = 4, parent = 0, left = 3, right = 5, color = BLACK\<rparr>,
        \<lparr>key = 6, parent = 5, left = 0, right = 0, color = RED\<rparr>],
      nil = 0, root = 6\<rparr>"

definition dup_10 :: rbt where
  "dup_10 =
     \<lparr>nodes =
       [\<lparr>key = 0, parent = 5, left = 0, right = 0, color = BLACK\<rparr>,
        \<lparr>key = 2, parent = 3, left = 4, right = 0, color = BLACK\<rparr>,
        \<lparr>key = 6, parent = 3, left = 0, right = 0, color = BLACK\<rparr>,
        \<lparr>key = 3, parent = 5, left = 1, right = 0, color = BLACK\<rparr>,
        \<lparr>key = 1, parent = 1, left = 0, right = 0, color = RED\<rparr>,
        \<lparr>key = 5, parent = 0, left = 3, right = 0, color = BLACK\<rparr>,
        \<lparr>key = 4, parent = 0, left = 3, right = 5, color = BLACK\<rparr>,
        \<lparr>key = 6, parent = 5, left = 0, right = 0, color = RED\<rparr>],
      nil = 0, root = 5\<rparr>"

definition dup_11 :: rbt where
  "dup_11 =
     \<lparr>nodes =
       [\<lparr>key = 0, parent = 5, left = 0, right = 0, color = BLACK\<rparr>,
        \<lparr>key = 2, parent = 3, left = 4, right = 0, color = BLACK\<rparr>,
        \<lparr>key = 6, parent = 3, left = 0, right = 0, color = BLACK\<rparr>,
        \<lparr>key = 3, parent = 5, left = 1, right = 0, color = BLACK\<rparr>,
        \<lparr>key = 1, parent = 1, left = 0, right = 0, color = RED\<rparr>,
        \<lparr>key = 5, parent = 0, left = 3, right = 8, color = BLACK\<rparr>,
        \<lparr>key = 4, parent = 0, left = 3, right = 5, color = BLACK\<rparr>,
        \<lparr>key = 6, parent = 5, left = 0, right = 0, color = RED\<rparr>,
        \<lparr>key = 6, parent = 5, left = 0, right = 0, color = RED\<rparr>],
      nil = 0, root = 5\<rparr>"

definition dup_12 :: rbt where
  "dup_12 =
     \<lparr>nodes =
       [\<lparr>key = 0, parent = 5, left = 0, right = 0, color = RED\<rparr>,
        \<lparr>key = 2, parent = 5, left = 4, right = 0, color = BLACK\<rparr>,
        \<lparr>key = 6, parent = 3, left = 0, right = 0, color = BLACK\<rparr>,
        \<lparr>key = 3, parent = 5, left = 1, right = 0, color = BLACK\<rparr>,
        \<lparr>key = 1, parent = 1, left = 0, right = 0, color = RED\<rparr>,
        \<lparr>key = 5, parent = 8, left = 1, right = 0, color = BLACK\<rparr>,
        \<lparr>key = 4, parent = 0, left = 3, right = 5, color = BLACK\<rparr>,
        \<lparr>key = 6, parent = 5, left = 0, right = 0, color = RED\<rparr>,
        \<lparr>key = 6, parent = 0, left = 5, right = 0, color = BLACK\<rparr>],
      nil = 0, root = 8\<rparr>"











section \<open>A run after which the smallest node has a predecessor\<close>

text \<open>
  \<open>bound_ops\<close> starts with the first twelve calls of \<open>dup_ops\<close>; the stores after its
  calls 13 to 20 follow.
\<close>

definition bound_ops :: "op list" where
  "bound_ops =
     [Insert 2, Insert 6, Insert 3, Insert 1, Delete 6, Insert 5, Insert 4, Insert 6,
      Delete 6, Delete 4, Insert 6, Delete 3, Delete 1, Insert 7, Insert 0, Insert 8,
      Delete 2, Insert 9, Delete 0, Delete 6]"

definition bound_13 :: rbt where
  "bound_13 =
     \<lparr>nodes =
       [\<lparr>key = 0, parent = 1, left = 0, right = 0, color = RED\<rparr>,
        \<lparr>key = 2, parent = 5, left = 0, right = 0, color = BLACK\<rparr>,
        \<lparr>key = 6, parent = 3, left = 0, right = 0, color = BLACK\<rparr>,
        \<lparr>key = 3, parent = 5, left = 1, right = 0, color = BLACK\<rparr>,
        \<lparr>key = 1, parent = 1, left = 0, right = 0, color = RED\<rparr>,
        \<lparr>key = 5, parent = 8, left = 1, right = 0, color = BLACK\<rparr>,
        \<lparr>key = 4, parent = 0, left = 3, right = 5, color = BLACK\<rparr>,
        \<lparr>key = 6, parent = 5, left = 0, right = 0, color = RED\<rparr>,
        \<lparr>key = 6, parent = 0, left = 5, right = 0, color = BLACK\<rparr>],
      nil = 0, root = 8\<rparr>"

definition bound_14 :: rbt where
  "bound_14 =
     \<lparr>nodes =
       [\<lparr>key = 0, parent = 1, left = 0, right = 0, color = RED\<rparr>,
        \<lparr>key = 2, parent = 5, left = 0, right = 0, color = BLACK\<rparr>,
        \<lparr>key = 6, parent = 3, left = 0, right = 0, color = BLACK\<rparr>,
        \<lparr>key = 3, parent = 5, left = 1, right = 0, color = BLACK\<rparr>,
        \<lparr>key = 1, parent = 1, left = 0, right = 0, color = RED\<rparr>,
        \<lparr>key = 5, parent = 8, left = 1, right = 0, color = BLACK\<rparr>,
        \<lparr>key = 4, parent = 0, left = 3, right = 5, color = BLACK\<rparr>,
        \<lparr>key = 6, parent = 5, left = 0, right = 0, color = RED\<rparr>,
        \<lparr>key = 6, parent = 0, left = 5, right = 9, color = BLACK\<rparr>,
        \<lparr>key = 7, parent = 8, left = 0, right = 0, color = RED\<rparr>],
      nil = 0, root = 8\<rparr>"

definition bound_15 :: rbt where
  "bound_15 =
     \<lparr>nodes =
       [\<lparr>key = 0, parent = 1, left = 0, right = 0, color = RED\<rparr>,
        \<lparr>key = 2, parent = 5, left = 10, right = 0, color = BLACK\<rparr>,
        \<lparr>key = 6, parent = 3, left = 0, right = 0, color = BLACK\<rparr>,
        \<lparr>key = 3, parent = 5, left = 1, right = 0, color = BLACK\<rparr>,
        \<lparr>key = 1, parent = 1, left = 0, right = 0, color = RED\<rparr>,
        \<lparr>key = 5, parent = 8, left = 1, right = 0, color = BLACK\<rparr>,
        \<lparr>key = 4, parent = 0, left = 3, right = 5, color = BLACK\<rparr>,
        \<lparr>key = 6, parent = 5, left = 0, right = 0, color = RED\<rparr>,
        \<lparr>key = 6, parent = 0, left = 5, right = 9, color = BLACK\<rparr>,
        \<lparr>key = 7, parent = 8, left = 0, right = 0, color = RED\<rparr>,
        \<lparr>key = 0, parent = 1, left = 0, right = 0, color = RED\<rparr>],
      nil = 0, root = 8\<rparr>"

definition bound_16 :: rbt where
  "bound_16 =
     \<lparr>nodes =
       [\<lparr>key = 0, parent = 1, left = 0, right = 0, color = RED\<rparr>,
        \<lparr>key = 2, parent = 5, left = 10, right = 0, color = BLACK\<rparr>,
        \<lparr>key = 6, parent = 3, left = 0, right = 0, color = BLACK\<rparr>,
        \<lparr>key = 3, parent = 5, left = 1, right = 0, color = BLACK\<rparr>,
        \<lparr>key = 1, parent = 1, left = 0, right = 0, color = RED\<rparr>,
        \<lparr>key = 5, parent = 8, left = 1, right = 0, color = BLACK\<rparr>,
        \<lparr>key = 4, parent = 0, left = 3, right = 5, color = BLACK\<rparr>,
        \<lparr>key = 6, parent = 5, left = 0, right = 0, color = RED\<rparr>,
        \<lparr>key = 6, parent = 9, left = 5, right = 0, color = RED\<rparr>,
        \<lparr>key = 7, parent = 0, left = 8, right = 11, color = BLACK\<rparr>,
        \<lparr>key = 0, parent = 1, left = 0, right = 0, color = RED\<rparr>,
        \<lparr>key = 8, parent = 9, left = 0, right = 0, color = RED\<rparr>],
      nil = 0, root = 9\<rparr>"

definition bound_17 :: rbt where
  "bound_17 =
     \<lparr>nodes =
       [\<lparr>key = 0, parent = 1, left = 0, right = 0, color = RED\<rparr>,
        \<lparr>key = 2, parent = 5, left = 10, right = 0, color = BLACK\<rparr>,
        \<lparr>key = 6, parent = 3, left = 0, right = 0, color = BLACK\<rparr>,
        \<lparr>key = 3, parent = 5, left = 1, right = 0, color = BLACK\<rparr>,
        \<lparr>key = 1, parent = 1, left = 0, right = 0, color = RED\<rparr>,
        \<lparr>key = 5, parent = 8, left = 10, right = 0, color = BLACK\<rparr>,
        \<lparr>key = 4, parent = 0, left = 3, right = 5, color = BLACK\<rparr>,
        \<lparr>key = 6, parent = 5, left = 0, right = 0, color = RED\<rparr>,
        \<lparr>key = 6, parent = 9, left = 5, right = 0, color = RED\<rparr>,
        \<lparr>key = 7, parent = 0, left = 8, right = 11, color = BLACK\<rparr>,
        \<lparr>key = 0, parent = 5, left = 0, right = 0, color = BLACK\<rparr>,
        \<lparr>key = 8, parent = 9, left = 0, right = 0, color = RED\<rparr>],
      nil = 0, root = 9\<rparr>"

definition bound_18 :: rbt where
  "bound_18 =
     \<lparr>nodes =
       [\<lparr>key = 0, parent = 5, left = 1, right = 0, color = BLACK\<rparr>,
        \<lparr>key = 2, parent = 0, left = 10, right = 0, color = RED\<rparr>,
        \<lparr>key = 6, parent = 3, left = 0, right = 0, color = BLACK\<rparr>,
        \<lparr>key = 3, parent = 5, left = 1, right = 0, color = BLACK\<rparr>,
        \<lparr>key = 1, parent = 1, left = 0, right = 0, color = RED\<rparr>,
        \<lparr>key = 5, parent = 8, left = 10, right = 0, color = BLACK\<rparr>,
        \<lparr>key = 4, parent = 0, left = 3, right = 5, color = BLACK\<rparr>,
        \<lparr>key = 6, parent = 5, left = 0, right = 0, color = RED\<rparr>,
        \<lparr>key = 6, parent = 9, left = 5, right = 0, color = BLACK\<rparr>,
        \<lparr>key = 7, parent = 0, left = 8, right = 11, color = BLACK\<rparr>,
        \<lparr>key = 0, parent = 5, left = 0, right = 0, color = BLACK\<rparr>,
        \<lparr>key = 8, parent = 9, left = 0, right = 12, color = BLACK\<rparr>,
        \<lparr>key = 9, parent = 11, left = 0, right = 0, color = RED\<rparr>],
      nil = 0, root = 9\<rparr>"

definition bound_19 :: rbt where
  "bound_19 =
     \<lparr>nodes =
       [\<lparr>key = 0, parent = 5, left = 1, right = 0, color = BLACK\<rparr>,
        \<lparr>key = 2, parent = 0, left = 10, right = 0, color = RED\<rparr>,
        \<lparr>key = 6, parent = 3, left = 0, right = 0, color = BLACK\<rparr>,
        \<lparr>key = 3, parent = 5, left = 1, right = 0, color = BLACK\<rparr>,
        \<lparr>key = 1, parent = 1, left = 0, right = 0, color = RED\<rparr>,
        \<lparr>key = 5, parent = 8, left = 0, right = 0, color = BLACK\<rparr>,
        \<lparr>key = 4, parent = 0, left = 3, right = 5, color = BLACK\<rparr>,
        \<lparr>key = 6, parent = 5, left = 0, right = 0, color = RED\<rparr>,
        \<lparr>key = 6, parent = 9, left = 5, right = 0, color = BLACK\<rparr>,
        \<lparr>key = 7, parent = 0, left = 8, right = 11, color = BLACK\<rparr>,
        \<lparr>key = 0, parent = 5, left = 0, right = 0, color = BLACK\<rparr>,
        \<lparr>key = 8, parent = 9, left = 0, right = 12, color = BLACK\<rparr>,
        \<lparr>key = 9, parent = 11, left = 0, right = 0, color = RED\<rparr>],
      nil = 0, root = 9\<rparr>"

definition bound_20 :: rbt where
  "bound_20 =
     \<lparr>nodes =
       [\<lparr>key = 0, parent = 0, left = 0, right = 0, color = BLACK\<rparr>,
        \<lparr>key = 2, parent = 5, left = 10, right = 0, color = BLACK\<rparr>,
        \<lparr>key = 6, parent = 3, left = 0, right = 0, color = BLACK\<rparr>,
        \<lparr>key = 3, parent = 5, left = 1, right = 0, color = BLACK\<rparr>,
        \<lparr>key = 1, parent = 1, left = 0, right = 0, color = RED\<rparr>,
        \<lparr>key = 5, parent = 9, left = 1, right = 0, color = BLACK\<rparr>,
        \<lparr>key = 4, parent = 0, left = 3, right = 5, color = BLACK\<rparr>,
        \<lparr>key = 6, parent = 5, left = 0, right = 0, color = RED\<rparr>,
        \<lparr>key = 6, parent = 9, left = 5, right = 0, color = BLACK\<rparr>,
        \<lparr>key = 7, parent = 11, left = 5, right = 0, color = BLACK\<rparr>,
        \<lparr>key = 0, parent = 5, left = 0, right = 0, color = BLACK\<rparr>,
        \<lparr>key = 8, parent = 0, left = 9, right = 12, color = BLACK\<rparr>,
        \<lparr>key = 9, parent = 11, left = 0, right = 0, color = BLACK\<rparr>],
      nil = 0, root = 11\<rparr>"

section \<open>Running the program on a given store\<close>

text \<open>
  The equations below are the definitions again, with the pairs that the loop bodies
  return taken apart by \<open>fst\<close> and \<open>snd\<close>; with them the simplifier runs the program on
  a given store from the inside out.
\<close>

lemma bind_weak_cong: "x = y \<Longrightarrow> Option.bind x f = Option.bind y f"
  by simp

lemmas eval_congs = let_weak_cong option.case_cong_weak sum.case_cong_weak bind_weak_cong

lemmas insert_fixup_body_eval = insert_fixup_body_def [unfolded case_prod_unfold]

lemmas fix_delete_body_eval = fix_delete_body_def [unfolded case_prod_unfold]

lemma insert_fixup_eval:
  "insert_fixup s z =
     (if color_of s (parent_of s z) = RED
      then (let p = insert_fixup_body s z in insert_fixup (fst p) (snd p))
      else Some (set_color s (root s) BLACK))"
  by (subst insert_fixup.simps) (simp add: case_prod_unfold Let_def)

lemma fix_delete_eval:
  "fix_delete s x =
     (if fix_delete_cond s x
      then (let p = fix_delete_body s x in fix_delete (fst p) (snd p))
      else Some (set_color s x BLACK))"
  by (subst fix_delete.simps) (simp add: case_prod_unfold Let_def)

lemmas eval_simps = insert_def insert_descend.simps insert_fixup_eval insert_fixup_body_eval
  left_rotate_def right_rotate_def set_parent_def set_left_def set_right_def set_color_def
  Let_def init_def delete_node_def delete_node_helper_def delete_splice_def find_def
  find_helper.simps minimum.simps rb_transplant_def fix_delete_eval fix_delete_cond_def
  fix_delete_body_eval

subsection \<open>The reference run, call by call\<close>

lemma golden_step_1: "insert init 8 = Some (None, golden_1)"
  by (simp add: eval_simps golden_1_def cong: eval_congs)

lemma golden_step_2: "insert golden_1 18 = Some (None, golden_2)"
  by (simp add: eval_simps golden_1_def golden_2_def cong: eval_congs)

lemma golden_step_3: "insert golden_2 5 = Some (None, golden_3)"
  by (simp add: eval_simps golden_2_def golden_3_def cong: eval_congs)

lemma golden_step_4: "insert golden_3 15 = Some (None, golden_4)"
  by (simp add: eval_simps golden_3_def golden_4_def cong: eval_congs)

lemma golden_step_5: "insert golden_4 17 = Some (None, golden_5)"
  by (simp add: eval_simps golden_4_def golden_5_def cong: eval_congs)

lemma golden_step_6: "insert golden_5 25 = Some (None, golden_6)"
  by (simp add: eval_simps golden_5_def golden_6_def cong: eval_congs)

lemma golden_step_7: "insert golden_6 40 = Some (None, golden_7)"
  by (simp add: eval_simps golden_6_def golden_7_def cong: eval_congs)

lemma golden_step_8: "insert golden_7 80 = Some (None, golden_8)"
  by (simp add: eval_simps golden_7_def golden_8_def cong: eval_congs)

lemma golden_step_9: "delete_node golden_8 25 = Some (None, golden_9)"
  by (simp add: eval_simps golden_8_def golden_9_def cong: eval_congs)

lemma golden_run:
  "run init [Insert 8, Insert 18, Insert 5, Insert 15, Insert 17, Insert 25, Insert 40,
     Insert 80] = Some golden_8"
  by (simp add: golden_step_1 golden_step_2 golden_step_3 golden_step_4 golden_step_5
      golden_step_6 golden_step_7 golden_step_8)

lemma golden_8_tree: "is_tree golden_8 (root golden_8) golden_tree"
  by (simp add: golden_8_def golden_tree_def golden_left_def)

subsection \<open>The unbalanced run, call by call\<close>

lemma unbal_step_1: "insert init 1 = Some (None, unbal_1)"
  by (simp add: eval_simps unbal_1_def cong: eval_congs)

lemma unbal_step_2: "insert unbal_1 2 = Some (None, unbal_2)"
  by (simp add: eval_simps unbal_1_def unbal_2_def cong: eval_congs)

lemma unbal_step_3: "insert unbal_2 3 = Some (None, unbal_3)"
  by (simp add: eval_simps unbal_2_def unbal_3_def cong: eval_congs)

lemma unbal_step_4: "insert unbal_3 4 = Some (None, unbal_4)"
  by (simp add: eval_simps unbal_3_def unbal_4_def cong: eval_congs)

lemma unbal_step_5: "delete_node unbal_4 1 = Some (None, unbal_5)"
  by (simp add: eval_simps unbal_4_def unbal_5_def cong: eval_congs)

lemma unbal_run:
  "run init [Insert 1, Insert 2, Insert 3, Insert 4, Delete 1] = Some unbal_5"
  by (simp add: unbal_step_1 unbal_step_2 unbal_step_3 unbal_step_4 unbal_step_5)

subsection \<open>The run that loses keys, call by call\<close>

lemma lost_step_1: "insert init 6 = Some (None, lost_1)"
  by (simp add: eval_simps lost_1_def cong: eval_congs)

lemma lost_step_2: "insert lost_1 5 = Some (None, lost_2)"
  by (simp add: eval_simps lost_1_def lost_2_def cong: eval_congs)

lemma lost_step_3: "insert lost_2 1 = Some (None, lost_3)"
  by (simp add: eval_simps lost_2_def lost_3_def cong: eval_congs)

lemma lost_step_4: "insert lost_3 7 = Some (None, lost_4)"
  by (simp add: eval_simps lost_3_def lost_4_def cong: eval_congs)

lemma lost_step_5: "delete_node lost_4 1 = Some (None, lost_5)"
  by (simp add: eval_simps lost_4_def lost_5_def cong: eval_congs)

lemma lost_step_6: "insert lost_5 2 = Some (None, lost_6)"
  by (simp add: eval_simps lost_5_def lost_6_def cong: eval_congs)

lemma lost_step_7: "insert lost_6 1 = Some (None, lost_7)"
  by (simp add: eval_simps lost_6_def lost_7_def cong: eval_congs)

lemma lost_step_8: "insert lost_7 4 = Some (None, lost_8)"
  by (simp add: eval_simps lost_7_def lost_8_def cong: eval_congs)

lemma lost_step_9: "delete_node lost_8 1 = Some (None, lost_9)"
  by (simp add: eval_simps lost_8_def lost_9_def cong: eval_congs)

lemma lost_step_10: "insert lost_9 1 = Some (None, lost_10)"
  by (simp add: eval_simps lost_9_def lost_10_def cong: eval_congs)

lemma lost_step_11: "delete_node lost_10 4 = Some (None, lost_11)"
  by (simp add: eval_simps lost_10_def lost_11_def cong: eval_congs)

lemma lost_step_12: "delete_node lost_11 2 = Some (None, lost_12)"
  by (simp add: eval_simps lost_11_def lost_12_def cong: eval_congs)

lemma lost_step_13: "delete_node lost_12 5 = Some (None, lost_13)"
  by (simp add: eval_simps lost_12_def lost_13_def cong: eval_congs)

lemma lost_run_12: "run init (take 12 lost_ops) = Some lost_12"
  by (simp add: lost_ops_def lost_step_1 lost_step_2 lost_step_3 lost_step_4 lost_step_5
      lost_step_6 lost_step_7 lost_step_8 lost_step_9 lost_step_10 lost_step_11
      lost_step_12)

lemma lost_run: "run init lost_ops = Some lost_13"
  by (simp add: lost_ops_def lost_step_1 lost_step_2 lost_step_3 lost_step_4 lost_step_5
      lost_step_6 lost_step_7 lost_step_8 lost_step_9 lost_step_10 lost_step_11
      lost_step_12 lost_step_13)

lemma lost_present_keys: "present_keys lost_ops = [1, 6, 7]"
  by (simp add: present_keys_def lost_ops_def)

subsection \<open>The run that leaves no search tree, call by call\<close>

lemma dup_step_1: "insert init 2 = Some (None, dup_1)"
  by (simp add: eval_simps dup_1_def cong: eval_congs)

lemma dup_step_2: "insert dup_1 6 = Some (None, dup_2)"
  by (simp add: eval_simps dup_1_def dup_2_def cong: eval_congs)

lemma dup_step_3: "insert dup_2 3 = Some (None, dup_3)"
  by (simp add: eval_simps dup_2_def dup_3_def cong: eval_congs)

lemma dup_step_4: "insert dup_3 1 = Some (None, dup_4)"
  by (simp add: eval_simps dup_3_def dup_4_def cong: eval_congs)

lemma dup_step_5: "delete_node dup_4 6 = Some (None, dup_5)"
  by (simp add: eval_simps dup_4_def dup_5_def cong: eval_congs)

lemma dup_step_6: "insert dup_5 5 = Some (None, dup_6)"
  by (simp add: eval_simps dup_5_def dup_6_def cong: eval_congs)

lemma dup_step_7: "insert dup_6 4 = Some (None, dup_7)"
  by (simp add: eval_simps dup_6_def dup_7_def cong: eval_congs)

lemma dup_step_8: "insert dup_7 6 = Some (None, dup_8)"
  by (simp add: eval_simps dup_7_def dup_8_def cong: eval_congs)

lemma dup_step_9: "delete_node dup_8 6 = Some (None, dup_9)"
  by (simp add: eval_simps dup_8_def dup_9_def cong: eval_congs)

lemma dup_step_10: "delete_node dup_9 4 = Some (None, dup_10)"
  by (simp add: eval_simps dup_9_def dup_10_def cong: eval_congs)

lemma dup_step_11: "insert dup_10 6 = Some (None, dup_11)"
  by (simp add: eval_simps dup_10_def dup_11_def cong: eval_congs)

lemma dup_step_12: "delete_node dup_11 3 = Some (None, dup_12)"
  by (simp add: eval_simps dup_11_def dup_12_def cong: eval_congs)











subsection \<open>The run that breaks the boundary traversal, call by call\<close>

lemma bound_step_13: "delete_node dup_12 1 = Some (None, bound_13)"
  by (simp add: eval_simps dup_12_def bound_13_def cong: eval_congs)

lemma bound_step_14: "insert bound_13 7 = Some (None, bound_14)"
  by (simp add: eval_simps bound_13_def bound_14_def cong: eval_congs)

lemma bound_step_15: "insert bound_14 0 = Some (None, bound_15)"
  by (simp add: eval_simps bound_14_def bound_15_def cong: eval_congs)

lemma bound_step_16: "insert bound_15 8 = Some (None, bound_16)"
  by (simp add: eval_simps bound_15_def bound_16_def cong: eval_congs)

lemma bound_step_17: "delete_node bound_16 2 = Some (None, bound_17)"
  by (simp add: eval_simps bound_16_def bound_17_def cong: eval_congs)

lemma bound_step_18: "insert bound_17 9 = Some (None, bound_18)"
  by (simp add: eval_simps bound_17_def bound_18_def cong: eval_congs)

lemma bound_step_19: "delete_node bound_18 0 = Some (None, bound_19)"
  by (simp add: eval_simps bound_18_def bound_19_def cong: eval_congs)

lemma bound_step_20: "delete_node bound_19 6 = Some (None, bound_20)"
  by (simp add: eval_simps bound_19_def bound_20_def cong: eval_congs)

lemma bound_run: "run init bound_ops = Some bound_20"
  by (simp add: bound_ops_def dup_step_1 dup_step_2 dup_step_3 dup_step_4 dup_step_5
      dup_step_6 dup_step_7 dup_step_8 dup_step_9 dup_step_10 dup_step_11 dup_step_12
      bound_step_13 bound_step_14 bound_step_15 bound_step_16 bound_step_17
      bound_step_18 bound_step_19 bound_step_20)

section \<open>The reference run (claim C3)\<close>

text \<open>
  Claim C3.  Inserting 8, 18, 5, 15, 17, 25, 40, 80 into the empty tree gives the tree
  with root 17 (black), left child 8 (red) over 5 and 15 (black), right child 25 (red)
  over 18 (black) and 40 (black), 40 having the red right child 80 and the sentinel as
  left child.  Deleting 25 leaves the left subtree as it was and makes the right child
  40 (red) over 18 and 80 (black).  Deleting 100 then reports that the key is not in
  the tree and leaves the store as it was.
\<close>

theorem golden_scenario:
  "run init [Insert 8, Insert 18, Insert 5, Insert 15, Insert 17, Insert 25, Insert 40,
     Insert 80] = Some golden_8 \<and>
   is_tree golden_8 (root golden_8)
     (Node (Node (Node Leaf 5 BLACK Leaf) 8 RED (Node Leaf 15 BLACK Leaf)) 17 BLACK
           (Node (Node Leaf 18 BLACK Leaf) 25 RED
                 (Node Leaf 40 BLACK (Node Leaf 80 RED Leaf)))) \<and>
   delete_node golden_8 25 = Some (None, golden_9) \<and>
   is_tree golden_9 (root golden_9)
     (Node (Node (Node Leaf 5 BLACK Leaf) 8 RED (Node Leaf 15 BLACK Leaf)) 17 BLACK
           (Node (Node Leaf 18 BLACK Leaf) 40 RED (Node Leaf 80 BLACK Leaf))) \<and>
   delete_node golden_9 100 = Some (Some Key_not_in_tree, golden_9)"
proof -
  have "is_tree golden_9 (root golden_9) golden_tree_after_delete"
    by (simp add: golden_9_def golden_tree_after_delete_def golden_left_def)
  moreover have "delete_node golden_9 100 = Some (Some Key_not_in_tree, golden_9)"
    by (simp add: eval_simps golden_9_def cong: eval_congs)
  ultimately show ?thesis
    using golden_run golden_8_tree golden_step_9
    by (simp add: golden_tree_def golden_tree_after_delete_def golden_left_def)
qed

section \<open>What the guard of \<^verbatim>\<open>fix_delete\<close> does (claims C1, C2, C5, C6, C7, C9, C10)\<close>

text \<open>
  The loop of \<^verbatim>\<open>fix_delete\<close> is guarded by \<^verbatim>\<open>x != self.nil and x.color == 0\<close>.  It
  therefore does nothing when \<^verbatim>\<open>x\<close> is the sentinel (a black leaf was removed), and it
  does run when \<^verbatim>\<open>x\<close> is the black root.  The theorems of this section run the program
  on three sequences of calls and record what comes out.
\<close>

text \<open>
  Claim C1 (the five red-black invariants hold after every operation).  After
  inserting 1, 2, 3, 4 and deleting 1 the store is the tree with root 2 (black), the
  sentinel as left child and 3 (black) over a red 4 as right child: the path to the
  left leaf passes one black node, the three other paths pass two.  Property 4 does
  not hold after this deletion.
\<close>

theorem delete_black_leaf_unbalances:
  "run init [Insert 1, Insert 2, Insert 3, Insert 4, Delete 1] = Some unbal_5 \<and>
   is_tree unbal_5 (root unbal_5)
     (Node Leaf 2 BLACK (Node Leaf 3 BLACK (Node Leaf 4 RED Leaf))) \<and>
   black_counts (Node Leaf 2 BLACK (Node Leaf 3 BLACK (Node Leaf 4 RED Leaf)))
     = [1, 2, 2, 2]"
  using unbal_run by (simp add: unbal_5_def)

text \<open>
  Claim C2 (the loop of \<^verbatim>\<open>fix_delete\<close> stops when \<^verbatim>\<open>x\<close> is the root).  In the store
  above, \<^verbatim>\<open>delete_node(2)\<close> finds the root, splices it out, which makes the black node
  3 the root, and calls \<^verbatim>\<open>fix_delete\<close> on this root.  The guard of the loop holds there,
  and the body runs: it takes the sentinel for the sibling, paints it red and moves
  \<^verbatim>\<open>x\<close> to the sentinel.
\<close>

theorem fix_delete_body_runs_at_root:
  "run init [Insert 1, Insert 2, Insert 3, Insert 4, Delete 1] = Some unbal_5 \<and>
   find unbal_5 2 = Some (root unbal_5) \<and>
   delete_splice unbal_5 (root unbal_5) = Some (unbal_spliced, root unbal_spliced, BLACK) \<and>
   fix_delete_cond unbal_spliced (root unbal_spliced) \<and>
   fix_delete_body unbal_spliced (root unbal_spliced) =
     (set_color unbal_spliced (nil unbal_spliced) RED, nil unbal_spliced)"
proof -
  have "find unbal_5 2 = Some (root unbal_5)"
    by (simp add: eval_simps unbal_5_def cong: eval_congs)
  moreover have "delete_splice unbal_5 (root unbal_5) =
      Some (unbal_spliced, root unbal_spliced, BLACK)"
    by (simp add: eval_simps unbal_5_def unbal_spliced_def cong: eval_congs)
  moreover have "fix_delete_cond unbal_spliced (root unbal_spliced)"
    by (simp add: fix_delete_cond_def unbal_spliced_def)
  moreover have "fix_delete_body unbal_spliced (root unbal_spliced) =
      (set_color unbal_spliced (nil unbal_spliced) RED, nil unbal_spliced)"
    by (simp add: eval_simps unbal_spliced_def cong: eval_congs)
  ultimately show ?thesis using unbal_run by simp
qed

text \<open>
  Claim C5 (\<^verbatim>\<open>find(k)\<close> returns a node with key \<open>k\<close> exactly when \<open>k\<close> was inserted and
  not deleted afterwards).  After the calls of \<open>lost_ops\<close> the keys 1, 6 and 7 have been
  inserted and not deleted afterwards, but \<^verbatim>\<open>find\<close> returns the sentinel for each of
  them.
\<close>

theorem find_misses_inserted_keys:
  "run init lost_ops = Some lost_13 \<and> present_keys lost_ops = [1, 6, 7] \<and>
   find lost_13 1 = Some (nil lost_13) \<and>
   find lost_13 6 = Some (nil lost_13) \<and>
   find lost_13 7 = Some (nil lost_13)"
  using lost_run lost_present_keys by (simp add: find_def lost_13_def)

text \<open>
  Claim C6 (the in-order traversal is the sorted sequence of the keys present).  After
  the calls of \<open>lost_ops\<close> the root is the sentinel: the tree is empty and its in-order
  traversal is the empty sequence, while the keys present are 1, 6, 7.
\<close>

theorem inorder_misses_inserted_keys:
  "run init lost_ops = Some lost_13 \<and> is_tree lost_13 (root lost_13) Leaf \<and>
   inorder Leaf = [] \<and> present_keys lost_ops = [1, 6, 7]"
  using lost_run lost_present_keys by (simp add: lost_13_def)

text \<open>
  Claim C9 (the sentinel is black before and after every operation).  After the first
  twelve calls of \<open>lost_ops\<close>, the last of them \<^verbatim>\<open>delete_node(2)\<close>, the sentinel is red.
\<close>

theorem sentinel_red_after_delete:
  "run init (take 12 lost_ops) = Some lost_12 \<and> color_of lost_12 (nil lost_12) = RED"
  using lost_run_12 by (simp add: lost_12_def)

text \<open>
  Claim C10 (after every operation the sentinel's \<^verbatim>\<open>left\<close> and \<^verbatim>\<open>right\<close> are the
  sentinel, and the root's parent is the sentinel).  After the calls of \<open>lost_ops\<close> the
  sentinel's \<^verbatim>\<open>right\<close> field refers to the node at position 8, which is not the
  sentinel.
\<close>

theorem sentinel_right_overwritten:
  "run init lost_ops = Some lost_13 \<and> right_of lost_13 (nil lost_13) = 8 \<and>
   nil lost_13 = 0"
  using lost_run by (simp add: lost_13_def)

text \<open>
  Claim C7 (on every non-empty tree reached by inserts and deletes, the successor of
  \<^verbatim>\<open>maximum(root)\<close> and the predecessor of \<^verbatim>\<open>minimum(root)\<close> are the sentinel).  After
  the calls of \<open>bound_ops\<close> the tree is not empty, \<^verbatim>\<open>minimum(root)\<close> returns the node at
  position 10, and \<^verbatim>\<open>predecessor\<close> of that node returns the node at position 5, which
  carries the key 5 and is not the sentinel: the parent link of the smallest node
  does not lead to the node it hangs from.
\<close>

theorem predecessor_of_minimum_not_sentinel:
  "run init bound_ops = Some bound_20 \<and> root bound_20 \<noteq> nil bound_20 \<and>
   minimum bound_20 (root bound_20) = Some 10 \<and>
   predecessor bound_20 10 = Some 5 \<and> nil bound_20 = 0 \<and> key_of bound_20 5 = 5"
proof -
  have "minimum bound_20 (root bound_20) = Some 10"
    by (simp add: minimum.simps bound_20_def)
  moreover have "predecessor bound_20 10 = Some 5"
    by (simp add: predecessor_def predecessor_up.simps bound_20_def)
  ultimately show ?thesis
    using bound_run by (simp add: bound_20_def)
qed

section \<open>Height\<close>







section \<open>Inserting a key that is there, deleting a key that is not\<close>






end
